theory Spec2Isabelle
  imports Main
begin

section \<open>Shared data: errors, bytes, durations\<close>

text \<open>
  Go errors are values. \<open>Wrap msg e\<close> is \<^verbatim>\<open>fmt.Errorf(msg + ": %w", e)\<close>; \<open>EOF\<close> is
  \<^verbatim>\<open>io.EOF\<close>, which \<open>doPost\<close> compares against; \<open>UnexpectedStatus\<close> carries the status
  code and the body that the message of http.go line 165 prints.
\<close>

datatype go_error =
    EOF
  | Err string
  | Wrap string go_error
  | UnexpectedStatus int string

type_synonym bytes = string

text \<open>
  \<^verbatim>\<open>time.Duration\<close> is an \<^verbatim>\<open>int64\<close> count of nanoseconds and Go's \<^verbatim>\<open>int\<close> has 64 bits on
  the platforms the module targets. Both are modelled as \<open>int\<close> with the two's-complement
  wrap-around written out.
\<close>

type_synonym duration = int

definition wrap64 :: "int \<Rightarrow> int" where
  "wrap64 x = (x + 2 ^ 63) mod 2 ^ 64 - 2 ^ 63"

definition Millisecond :: duration where
  "Millisecond = 1000000"

definition Second :: duration where
  "Second = 1000000000"

section \<open>The command client (http.go)\<close>

record HttpResult =
  Status :: string
  Code :: int
  Data :: bytes

text \<open>
  The \<open>logger\<close> field is left out: \<open>Debugf\<close> only prints. \<open>client_Timeout\<close> is the one
  field of \<^verbatim>\<open>http.Client\<close> the constructor sets.
\<close>

record HttpClient =
  restGateway :: string
  accessToken :: string
  client_Timeout :: duration
  maxRetries :: int
  baseRetryDelay :: duration
  maxRetryDelay :: duration
  maxRetryJitter :: duration

definition NewHttpClient :: "string \<Rightarrow> string \<Rightarrow> HttpClient" where
  "NewHttpClient gateway token =
     \<lparr> restGateway = gateway, accessToken = token,
       client_Timeout = Second * 10,
       maxRetries = 5,
       baseRetryDelay = 100 * Millisecond,
       maxRetryDelay = 5 * Second,
       maxRetryJitter = 100 * Millisecond \<rparr>"

definition NewHttpClientWithOptions ::
  "string \<Rightarrow> string \<Rightarrow> duration \<Rightarrow> int \<Rightarrow> duration \<Rightarrow> duration \<Rightarrow> duration \<Rightarrow> HttpClient" where
  "NewHttpClientWithOptions gateway token timeout retries base maxd maxj =
     \<lparr> restGateway = gateway, accessToken = token,
       client_Timeout = timeout,
       maxRetries = retries,
       baseRetryDelay = base,
       maxRetryDelay = maxd,
       maxRetryJitter = maxj \<rparr>"

subsection \<open>One attempt: \<open>doPost\<close>\<close>

record http_request =
  req_method :: string
  req_url :: string
  req_body :: bytes
  req_headers :: "(string \<times> string) list"

text \<open>\<open>Body\<close> is what \<^verbatim>\<open>io.ReadAll(resp.Body)\<close> returns: the bytes or a read error.\<close>

record http_response =
  StatusCode :: int
  Body :: "go_error + bytes"

text \<open>
  \<^verbatim>\<open>encoding/json\<close> is outside the repository and is a parameter of the model.
  \<open>json_Unmarshal_response bs r\<close> is \<^verbatim>\<open>json.Unmarshal(bs, response)\<close> on a slot holding
  \<open>r\<close>: it returns the slot's new content together with the error, since a failed decode
  may already have written fields.
\<close>

record ('req, 'resp) json_codec =
  json_Marshal :: "'req \<Rightarrow> go_error + bytes"
  json_Unmarshal_HttpResult :: "bytes \<Rightarrow> go_error + HttpResult"
  json_Unmarshal_response :: "bytes \<Rightarrow> 'resp \<Rightarrow> 'resp \<times> go_error option"

text \<open>
  What the network does in one attempt: whether \<^verbatim>\<open>http.NewRequestWithContext\<close> fails, and
  what \<^verbatim>\<open>h.client.Do\<close> answers to the request it is given.
\<close>

record exchange =
  newRequest_error :: "go_error option"
  client_Do :: "http_request \<Rightarrow> go_error + http_response"

definition build_request :: "HttpClient \<Rightarrow> string \<Rightarrow> bytes \<Rightarrow> http_request" where
  "build_request h urlPath body =
     \<lparr> req_method = ''POST'', req_url = urlPath, req_body = body,
       req_headers =
         [(''Content-Type'', ''application/json'')] @
         (if accessToken h \<noteq> [] then [(''Authorization'', ''Bearer '' @ accessToken h)] else []) \<rparr>"

text \<open>
  \<open>doPost\<close> returns the error (\<open>None\<close> is \<^verbatim>\<open>nil\<close>) and the response slot after the call.
  The slot is \<open>None\<close> when the caller passed a \<^verbatim>\<open>nil\<close> response.
\<close>

definition doPost ::
  "('req, 'resp) json_codec \<Rightarrow> HttpClient \<Rightarrow> exchange \<Rightarrow> string \<Rightarrow> 'req option \<Rightarrow> 'resp option
     \<Rightarrow> go_error option \<times> 'resp option" where
  "doPost c h x urlPath request response =
     (case (case request of None \<Rightarrow> Inr [] | Some r \<Rightarrow> json_Marshal c r) of
        Inl e \<Rightarrow> (Some (Wrap ''failed to marshal request'' e), response)
      | Inr jsonBytes \<Rightarrow>
         (case newRequest_error x of
            Some e \<Rightarrow> (Some (Wrap ''failed to create request'' e), response)
          | None \<Rightarrow>
             (case client_Do x (build_request h urlPath jsonBytes) of
                Inl e \<Rightarrow> (Some (Wrap ''request failed'' e), response)
              | Inr resp \<Rightarrow>
                 (case Body resp of
                    Inl e \<Rightarrow> (Some (Wrap ''failed to read response body'' e), response)
                  | Inr body \<Rightarrow>
                     if StatusCode resp < 200 \<or> StatusCode resp \<ge> 300
                     then (Some (UnexpectedStatus (StatusCode resp) body), response)
                     else
                       (case response of
                          None \<Rightarrow> (None, response)
                        | Some r \<Rightarrow>
                           if StatusCode resp = 204 then (None, response)
                           else
                             (case json_Unmarshal_HttpResult c body of
                                Inl e \<Rightarrow> (Some (Wrap ''failed to decode response'' e), response)
                              | Inr result \<Rightarrow>
                                 (case json_Unmarshal_response c (Data result) r of
                                    (r', None) \<Rightarrow> (None, Some r')
                                  | (r', Some e) \<Rightarrow>
                                     if e = EOF then (None, Some r')
                                     else (Some (Wrap ''failed to decode response'' e), Some r'))))))))"

subsection \<open>The retry loop: \<open>Post\<close>\<close>

text \<open>
  \<^verbatim>\<open>1<<attempt\<close> takes the type of \<^verbatim>\<open>h.baseRetryDelay\<close>, an \<^verbatim>\<open>int64\<close>: bits shifted past
  bit 63 are lost. The product and the sum wrap as well. \<open>retry_delay\<close> is the expression
  of http.go lines 106 to 109.
\<close>

definition shl1 :: "int \<Rightarrow> int" where
  "shl1 n = wrap64 (2 ^ nat n)"

definition retry_delay :: "HttpClient \<Rightarrow> int \<Rightarrow> int \<Rightarrow> duration" where
  "retry_delay h attempt jitter =
     min (wrap64 (wrap64 (baseRetryDelay h * shl1 attempt) + jitter)) (maxRetryDelay h)"

text \<open>
  The \<^verbatim>\<open>select\<close> of lines 114 to 118 has two cases. Which one runs is decided by the
  caller's context and the clock: \<open>CtxDone\<close> when the context is cancelled before the
  timer fires, \<open>TimerFired\<close> when the delay elapses first.
\<close>

datatype select_outcome = CtxDone | TimerFired

text \<open>
  One iteration of the loop meets: the network of this attempt, the number
  \<^verbatim>\<open>rand.Int64N\<close> draws, and the outcome of the \<^verbatim>\<open>select\<close>.
\<close>

record step =
  step_exchange :: exchange
  step_jitter :: int
  step_select :: select_outcome

text \<open>
  What a caller can observe of a call: each attempt with the counter it ran under, each
  delay slept in full, and a wait that the context cut short.
\<close>

datatype post_event =
    Attempt int
  | Slept duration
  | Interrupted duration

text \<open>
  \<open>Return e\<close>: the call returned \<open>e\<close>. \<open>Panic\<close>: a run-time panic (\<^verbatim>\<open>rand.Int64N\<close> with
  an argument that is not positive, a negative shift count). \<open>Stuck\<close>: the script of
  environment steps ended while the loop was still running.
\<close>

datatype post_outcome =
    Return "go_error option"
  | Panic string
  | Stuck

fun Post_loop ::
  "('req, 'resp) json_codec \<Rightarrow> HttpClient \<Rightarrow> string \<Rightarrow> 'req option \<Rightarrow> 'resp option \<Rightarrow> int
     \<Rightarrow> step list \<Rightarrow> post_event list \<Rightarrow> post_outcome \<times> 'resp option \<times> post_event list" where
  "Post_loop c h urlPath request response attempt [] tr = (Stuck, response, tr)"
| "Post_loop c h urlPath request response attempt (s # ss) tr =
     (case doPost c h (step_exchange s) urlPath request response of
        (None, response') \<Rightarrow> (Return None, response', tr @ [Attempt attempt])
      | (Some err, response') \<Rightarrow>
          if attempt > maxRetries h
          then (Return (Some (Wrap ''max retries exceeded'' err)), response', tr @ [Attempt attempt])
          else if maxRetryJitter h \<le> 0
          then (Panic ''invalid argument to Int64N'', response', tr @ [Attempt attempt])
          else if attempt < 0
          then (Panic ''negative shift amount'', response', tr @ [Attempt attempt])
          else
            (let delay = retry_delay h attempt (step_jitter s) in
               case step_select s of
                 CtxDone \<Rightarrow>
                   (Return (Some (Err ''context canceled'')), response',
                    tr @ [Attempt attempt, Interrupted delay])
               | TimerFired \<Rightarrow>
                   Post_loop c h urlPath request response' (wrap64 (attempt + 1)) ss
                     (tr @ [Attempt attempt, Slept delay])))"

text \<open>
  \<open>joined\<close> is the result of \<^verbatim>\<open>url.JoinPath(h.restGateway, endpoint)\<close>.
\<close>

definition Post ::
  "('req, 'resp) json_codec \<Rightarrow> HttpClient \<Rightarrow> go_error + string \<Rightarrow> 'req option \<Rightarrow> 'resp option
     \<Rightarrow> step list \<Rightarrow> post_outcome \<times> 'resp option \<times> post_event list" where
  "Post c h joined request response steps =
     (case joined of
        Inl err \<Rightarrow> (Return (Some (Wrap ''failed to join URL path'' err)), response, [])
      | Inr urlPath \<Rightarrow> Post_loop c h urlPath request response 0 steps [])"

fun is_Attempt :: "post_event \<Rightarrow> bool" where
  "is_Attempt (Attempt a) = True"
| "is_Attempt (Slept d) = False"
| "is_Attempt (Interrupted d) = False"

definition attempts_made :: "post_event list \<Rightarrow> nat" where
  "attempts_made tr = length (filter is_Attempt tr)"

subsection \<open>Environments used in the statements\<close>

text \<open>
  A script of steps on which every attempt fails, whatever the response slot holds, and
  one on which the caller's context is never cancelled while the client waits.
\<close>

definition always_fails ::
  "('req, 'resp) json_codec \<Rightarrow> HttpClient \<Rightarrow> string \<Rightarrow> 'req option \<Rightarrow> step list \<Rightarrow> bool" where
  "always_fails c h urlPath request steps =
     (\<forall>s \<in> set steps. \<forall>slot. fst (doPost c h (step_exchange s) urlPath request slot) \<noteq> None)"

definition never_cancelled :: "step list \<Rightarrow> bool" where
  "never_cancelled steps = (\<forall>s \<in> set steps. step_select s = TimerFired)"

text \<open>A gateway that refuses the connection, and a codec for calls without payload.\<close>

definition refused :: step where
  "refused = \<lparr> step_exchange = \<lparr> newRequest_error = None,
                                    client_Do = (\<lambda>rq. Inl (Err ''connection refused'')) \<rparr>,
               step_jitter = 0, step_select = TimerFired \<rparr>"

definition unit_codec :: "(unit, unit) json_codec" where
  "unit_codec = \<lparr> json_Marshal = (\<lambda>r. Inr ''{}''),
                  json_Unmarshal_HttpResult = (\<lambda>bs. Inl (Err ''unexpected end of JSON input'')),
                  json_Unmarshal_response = (\<lambda>bs r. (r, None)) \<rparr>"

text \<open>A client built with options: 40 retries, the default delays.\<close>

definition patient_client :: HttpClient where
  "patient_client = NewHttpClientWithOptions ''http://localhost:3000/api'' [] (10 * Second) 40
                      (100 * Millisecond) (5 * Second) (100 * Millisecond)"

text \<open>A failed attempt whose wait the caller's context interrupts.\<close>

definition cancelled_wait :: step where
  "cancelled_wait = refused\<lparr>step_jitter := 42000000, step_select := CtxDone\<rparr>"

text \<open>
  The exchange of the example of the specification: the gateway answers
  \<^verbatim>\<open>{"status":"ok","retcode":0,"data":{"id":123}}\<close>, and \<open>login_codec\<close> is
  \<^verbatim>\<open>encoding/json\<close> on these bytes, for a response type that holds the id.
\<close>

definition quoted :: "string \<Rightarrow> string" where
  "quoted s = CHR 0x22 # s @ [CHR 0x22]"

definition login_data :: bytes where
  "login_data = ''{'' @ quoted ''id'' @ '':123}''"

definition login_body :: bytes where
  "login_body = ''{'' @ quoted ''status'' @ '':'' @ quoted ''ok'' @ '','' @ quoted ''retcode'' @ '':0,''
                  @ quoted ''data'' @ '':'' @ login_data @ ''}''"

definition login_codec :: "(unit, int) json_codec" where
  "login_codec =
     \<lparr> json_Marshal = (\<lambda>r. Inr ''{}''),
       json_Unmarshal_HttpResult =
         (\<lambda>bs. if bs = login_body then Inr \<lparr> Status = ''ok'', Code = 0, Data = login_data \<rparr>
               else Inl (Err ''invalid character'')),
       json_Unmarshal_response =
         (\<lambda>bs r. if bs = login_data then (123, None) else (r, Some (Err ''invalid character''))) \<rparr>"

definition answers :: "int \<Rightarrow> bytes \<Rightarrow> exchange" where
  "answers code body =
     \<lparr> newRequest_error = None,
       client_Do = (\<lambda>rq. Inr \<lparr> StatusCode = code, Body = Inr body \<rparr>) \<rparr>"

text \<open>
  The attempts of a script run one after the other, each on the response slot that the
  attempts before it left: \<open>failed_attempts\<close> is the slot after them when every one of
  them failed, and \<open>None\<close> when one succeeded.
\<close>

fun failed_attempts ::
  "('req, 'resp) json_codec \<Rightarrow> HttpClient \<Rightarrow> string \<Rightarrow> 'req option \<Rightarrow> 'resp option \<Rightarrow> step list
     \<Rightarrow> 'resp option option" where
  "failed_attempts c h urlPath request response [] = Some response"
| "failed_attempts c h urlPath request response (s # ss) =
     (case doPost c h (step_exchange s) urlPath request response of
        (None, response') \<Rightarrow> None
      | (Some err, response') \<Rightarrow> failed_attempts c h urlPath request response' ss)"

text \<open>
  What a caller observes of failed attempts whose waits elapsed in full, the first of
  them with the counter \<open>attempt\<close>.
\<close>

fun elapsed_waits :: "HttpClient \<Rightarrow> int \<Rightarrow> step list \<Rightarrow> post_event list" where
  "elapsed_waits h attempt [] = []"
| "elapsed_waits h attempt (s # ss) =
     Attempt attempt # Slept (retry_delay h attempt (step_jitter s)) # elapsed_waits h (attempt + 1) ss"

text \<open>A gateway that answers 200 with a body that is no envelope.\<close>

definition undecodable :: step where
  "undecodable = \<lparr> step_exchange = answers 200 ''<html>'', step_jitter = 7, step_select = TimerFired \<rparr>"

section \<open>The message builder (SegmentBuilder)\<close>

record Segment =
  seg_Type :: string
  seg_Data :: bytes

text \<open>\<open>error = None\<close> is the \<^verbatim>\<open>nil\<close> error of a builder on which no call has failed.\<close>

record SegmentBuilder =
  segments :: "Segment list"
  error :: "go_error option"

definition NewSegmentBuilder :: SegmentBuilder where
  "NewSegmentBuilder = \<lparr> segments = [], error = None \<rparr>"

definition Append :: "Segment \<Rightarrow> go_error option \<Rightarrow> SegmentBuilder \<Rightarrow> SegmentBuilder" where
  "Append segment err sb =
     (if error sb \<noteq> None then sb
      else if err \<noteq> None then sb\<lparr>error := err\<rparr>
      else sb\<lparr>segments := segments sb @ [segment]\<rparr>)"

text \<open>
  \<open>Build\<close> returns the slice and the error; a \<^verbatim>\<open>nil\<close> slice is \<open>None\<close>.
\<close>

definition Build :: "SegmentBuilder \<Rightarrow> Segment list option \<times> go_error option" where
  "Build sb = (if error sb \<noteq> None then (None, error sb) else (Some (segments sb), None))"

text \<open>
  The methods \<open>Text\<close>, \<open>Mention\<close>, \<open>MentionAll\<close>, \<open>Face\<close>, \<open>Reply\<close>, \<open>Image\<close>, \<open>Record\<close> and
  \<open>Video\<close> each pass the segment and the error of their constructor to \<open>Append\<close>. A
  chain of builder calls is the list of these pairs, applied from left to right.
\<close>

fun Appends :: "(Segment \<times> go_error option) list \<Rightarrow> SegmentBuilder \<Rightarrow> SegmentBuilder" where
  "Appends [] sb = sb"
| "Appends ((segment, err) # calls) sb = Appends calls (Append segment err sb)"

text \<open>Two segments for the examples.\<close>

definition text_hi :: Segment where
  "text_hi = \<lparr> seg_Type = ''text'', seg_Data = ''hi'' \<rparr>"

definition mention_all :: Segment where
  "mention_all = \<lparr> seg_Type = ''mention_all'', seg_Data = ''{}'' \<rparr>"

section \<open>The event stream (WebsocketEventSource)\<close>

text \<open>
  Connections and channels are references. The model names them by numbers and keeps
  what the run-time system knows about them in \<open>ws_state\<close>: which channels have been
  closed, the next unused channel, and the \<open>receive\<close> activities that were started with
  their three arguments.
\<close>

type_synonym conn = nat
type_synonym chan = nat

record RawEvent =
  raw_Type :: string
  raw_SelfID :: int
  raw_Time :: int
  raw_Data :: bytes

definition zero_RawEvent :: RawEvent where
  "zero_RawEvent = \<lparr> raw_Type = [], raw_SelfID = 0, raw_Time = 0, raw_Data = [] \<rparr>"

definition ErrAlreadyConnected :: go_error where
  "ErrAlreadyConnected = Err ''already connected''"

text \<open>
  The embedded \<^verbatim>\<open>sync.RWMutex\<close> and the logger are left out of the record: every method
  releases the lock it takes before it returns.
\<close>

record WebsocketEventSource =
  wsGateway :: string
  ws_accessToken :: string
  wsConn :: "conn option"
  eventChan :: "chan option"
  closeChan :: "chan option"

record ws_state =
  source :: WebsocketEventSource
  closed_chans :: "chan list"
  next_chan :: chan
  receivers :: "(conn \<times> chan \<times> chan) list"

definition NewWebsocketEventSource :: "string \<Rightarrow> string \<Rightarrow> WebsocketEventSource" where
  "NewWebsocketEventSource gateway token =
     \<lparr> wsGateway = gateway, ws_accessToken = token,
       wsConn = None, eventChan = None, closeChan = None \<rparr>"

definition initial_state :: "WebsocketEventSource \<Rightarrow> ws_state" where
  "initial_state w = \<lparr> source = w, closed_chans = [], next_chan = 0, receivers = [] \<rparr>"

text \<open>
  A channel receive \<^verbatim>\<open><-ch\<close>, as far as the caller can tell: on a \<^verbatim>\<open>nil\<close> channel it
  blocks forever; on a channel that is closed or has a sender waiting (\<open>ready\<close>) it
  returns; otherwise the caller waits for the channel.
\<close>

datatype blocking = Returned | BlockedForever | WaitsOn chan

definition receive_from :: "(chan \<Rightarrow> bool) \<Rightarrow> chan option \<Rightarrow> blocking" where
  "receive_from ready ch =
     (case ch of
        None \<Rightarrow> BlockedForever
      | Some c \<Rightarrow> if ready c then Returned else WaitsOn c)"

definition ws_Wait :: "ws_state \<Rightarrow> blocking" where
  "ws_Wait st = receive_from (\<lambda>c. c \<in> set (closed_chans st)) (closeChan (source st))"

text \<open>
  \<open>dial\<close> is \<^verbatim>\<open>websocket.DefaultDialer.Dial\<close>: given the gateway and the header it returns
  a connection or an error. \<open>Open\<close> returns the event channel and the error, and the new
  state.
\<close>

definition dial_header :: "WebsocketEventSource \<Rightarrow> (string \<times> string) list" where
  "dial_header w =
     (if ws_accessToken w \<noteq> [] then [(''Authorization'', ''Bearer '' @ ws_accessToken w)] else [])"

definition Open ::
  "(string \<Rightarrow> (string \<times> string) list \<Rightarrow> go_error + conn) \<Rightarrow> ws_state
     \<Rightarrow> (chan option \<times> go_error option) \<times> ws_state" where
  "Open dial st =
     (let w = source st in
      if wsConn w \<noteq> None then ((None, Some ErrAlreadyConnected), st)
      else
        (case dial (wsGateway w) (dial_header w) of
           Inl err \<Rightarrow> ((None, Some err), st)
         | Inr c \<Rightarrow>
            (let ec = next_chan st; cc = next_chan st + 1 in
             ((Some ec, None),
              st\<lparr> source := w\<lparr> wsConn := Some c, eventChan := Some ec, closeChan := Some cc \<rparr>,
                  next_chan := next_chan st + 2,
                  receivers := receivers st @ [(c, ec, cc)] \<rparr>))))"

text \<open>
  \<^verbatim>\<open>close(ch)\<close> panics on a \<^verbatim>\<open>nil\<close> channel and on a closed one. \<open>conn_Close\<close> is the result
  of \<^verbatim>\<open>w.wsConn.Close()\<close>.
\<close>

datatype close_result = Closed "go_error option" ws_state | ClosePanic string

definition close_chan :: "chan option \<Rightarrow> ws_state \<Rightarrow> ws_state option" where
  "close_chan ch st =
     (case ch of
        None \<Rightarrow> None
      | Some c \<Rightarrow> if c \<in> set (closed_chans st) then None
                  else Some (st\<lparr> closed_chans := closed_chans st @ [c] \<rparr>))"

definition Close :: "go_error option \<Rightarrow> ws_state \<Rightarrow> close_result" where
  "Close conn_Close st =
     (let w = source st in
      if wsConn w = None then Closed None st
      else
        (case conn_Close of
           Some err \<Rightarrow> Closed (Some err) st
         | None \<Rightarrow>
            (case close_chan (eventChan w) (st\<lparr> source := w\<lparr> wsConn := None \<rparr> \<rparr>) of
               None \<Rightarrow> ClosePanic ''close of nil or closed channel''
             | Some st1 \<Rightarrow>
                (case close_chan (closeChan w) st1 of
                   None \<Rightarrow> ClosePanic ''close of nil or closed channel''
                 | Some st2 \<Rightarrow> Closed None st2))))"

subsection \<open>The receive activity\<close>

text \<open>
  \<^verbatim>\<open>compress/zlib\<close> and \<^verbatim>\<open>encoding/json\<close> are parameters. \<open>json_Unmarshal_RawEvent bs\<close> is
  \<^verbatim>\<open>json.Unmarshal(bs, &rawEvent)\<close> on a zero \<open>RawEvent\<close>: the value left in \<open>rawEvent\<close>
  and the error. \<open>zlib_ReadAll\<close> is \<^verbatim>\<open>io.ReadAll\<close> on the reader: the bytes read and the
  error.
\<close>

record frame_codec =
  zlib_NewReader :: "bytes \<Rightarrow> go_error option"
  zlib_ReadAll :: "bytes \<Rightarrow> bytes \<times> go_error option"
  zlib_Close :: "bytes \<Rightarrow> go_error option"
  json_Unmarshal_RawEvent :: "bytes \<Rightarrow> RawEvent \<times> go_error option"

definition TextMessage :: int where
  "TextMessage = 1"

definition BinaryMessage :: int where
  "BinaryMessage = 2"

text \<open>
  Another activity may call \<open>Close\<close> while \<open>receive\<close> runs. The model lets it do so
  after a read returns or after the event was sent.
\<close>

datatype interleaving = NoClose | CloseAfterRead | CloseAfterSend

record frame_step =
  fs_ReadMessage :: "go_error + int \<times> bytes"
  fs_concurrent :: interleaving
  fs_conn_Close :: "go_error option"

datatype recv_event =
    Errorf string go_error
  | Debugf_Received RawEvent
  | Sent RawEvent

text \<open>
  \<open>Exited\<close>: the activity returned. \<open>RecvPanic\<close>: it panicked. \<open>AwaitingFrame\<close>: the
  script of frames ended and the activity is blocked in \<^verbatim>\<open>ReadMessage\<close>.
\<close>

datatype recv_outcome = Exited | RecvPanic string | AwaitingFrame

definition concurrently_closed :: "ws_state \<Rightarrow> ws_state" where
  "concurrently_closed st = (case Close None st of Closed e st' \<Rightarrow> st' | ClosePanic m \<Rightarrow> st)"

text \<open>
  The branch for a binary frame. When \<^verbatim>\<open>zlib.NewReader\<close> fails the code logs the error and
  goes on to \<^verbatim>\<open>io.ReadAll\<close> with the \<^verbatim>\<open>nil\<close> reader, which panics: the result is \<open>None\<close>.
\<close>

definition inflate :: "frame_codec \<Rightarrow> bytes \<Rightarrow> bytes option \<times> recv_event list" where
  "inflate cd message =
     (case zlib_NewReader cd message of
        Some err \<Rightarrow> (None, [Errorf ''Failed to decompress message'' err])
      | None \<Rightarrow>
         (case zlib_ReadAll cd message of
            (bs, rerr) \<Rightarrow>
              (Some bs,
               (case rerr of None \<Rightarrow> [] | Some err \<Rightarrow> [Errorf ''Failed to read decompressed message'' err]) @
               (case zlib_Close cd message of
                  None \<Rightarrow> [] | Some err \<Rightarrow> [Errorf ''Failed to close zlib reader'' err]))))"

fun receive ::
  "frame_codec \<Rightarrow> conn \<Rightarrow> chan \<Rightarrow> chan \<Rightarrow> frame_step list \<Rightarrow> ws_state \<Rightarrow> recv_event list
     \<Rightarrow> recv_outcome \<times> ws_state \<times> recv_event list" where
  "receive cd c ec cc [] st tr = (AwaitingFrame, st, tr)"
| "receive cd c ec cc (s # ss) st tr =
     (let st1 = (if fs_concurrent s = CloseAfterRead then concurrently_closed st else st) in
      case fs_ReadMessage s of
        Inl err \<Rightarrow>
          if wsConn (source st1) \<noteq> Some c then (Exited, st1, tr)
          else
            (case Close (fs_conn_Close s) st1 of
               Closed None st2 \<Rightarrow> (Exited, st2, tr @ [Errorf ''Error when reading message'' err])
             | Closed (Some cerr) st2 \<Rightarrow>
                 (Exited, st2,
                  tr @ [Errorf ''Error when reading message'' err,
                        Errorf ''Failed to close websocket connection'' cerr])
             | ClosePanic m \<Rightarrow> (RecvPanic m, st1, tr @ [Errorf ''Error when reading message'' err]))
      | Inr (messageType, message) \<Rightarrow>
          (case (if messageType = BinaryMessage then inflate cd message else (Some message, [])) of
             (None, logs) \<Rightarrow> (RecvPanic ''nil pointer dereference'', st1, tr @ logs)
           | (Some messageBytes, logs) \<Rightarrow>
               (case json_Unmarshal_RawEvent cd messageBytes of
                  (rawEvent, derr) \<Rightarrow>
                    (let tr1 = tr @ logs @
                               (case derr of
                                  None \<Rightarrow> []
                                | Some err \<Rightarrow> [Errorf ''Failed to decode message'' err]) @
                               [Debugf_Received rawEvent]
                     in if ec \<in> set (closed_chans st1)
                        then (RecvPanic ''send on closed channel'', st1, tr1)
                        else
                          (let st2 = (if fs_concurrent s = CloseAfterSend
                                      then concurrently_closed st1 else st1)
                           in if cc \<in> set (closed_chans st2)
                              then (Exited, st2, tr1 @ [Sent rawEvent])
                              else receive cd c ec cc ss st2 (tr1 @ [Sent rawEvent]))))))"

section \<open>The dispatcher (Bot)\<close>

definition ErrEventRegistryAlreadyExists :: go_error where
  "ErrEventRegistryAlreadyExists = Err ''event registry already exists''"

text \<open>
  An \<^verbatim>\<open>Event\<close> prototype reports its type and makes a new instance that is decoded from
  the payload: \<open>event_New_Decode bs\<close> is \<^verbatim>\<open>New()\<close> followed by \<^verbatim>\<open>Decode\<close>, the decoded
  event or the error. An \<^verbatim>\<open>EventHandler\<close> reports its type; what its \<^verbatim>\<open>Handle\<close> does is
  outside the repository, so the model records each call with its arguments.
\<close>

record 'ev Event =
  event_Type :: string
  event_New_Decode :: "bytes \<Rightarrow> go_error + 'ev"

record EventHandler =
  handler_Type :: string
  handler_name :: string

record 'ev Bot =
  eventRegistries :: "string \<rightharpoonup> 'ev Event"
  eventHandlers :: "string \<rightharpoonup> EventHandler list"
  bot_closeChan :: "chan option"

definition NewBot :: "'ev Bot" where
  "NewBot = \<lparr> eventRegistries = Map.empty, eventHandlers = Map.empty, bot_closeChan = None \<rparr>"

definition SetEventRegistry :: "string \<Rightarrow> 'ev Event \<Rightarrow> 'ev Bot \<Rightarrow> 'ev Bot" where
  "SetEventRegistry eventType event b =
     b\<lparr> eventRegistries := (eventRegistries b)(eventType \<mapsto> event) \<rparr>"

text \<open>\<^verbatim>\<open>append\<close> to the slice of a missing key appends to the \<^verbatim>\<open>nil\<close> slice.\<close>

definition Handle :: "EventHandler \<Rightarrow> 'ev Bot \<Rightarrow> 'ev Bot" where
  "Handle handler b =
     b\<lparr> eventHandlers := (eventHandlers b)
          (handler_Type handler \<mapsto>
             (case eventHandlers b (handler_Type handler) of None \<Rightarrow> [] | Some hs \<Rightarrow> hs) @ [handler]) \<rparr>"

fun Handles :: "EventHandler list \<Rightarrow> 'ev Bot \<Rightarrow> 'ev Bot" where
  "Handles [] b = b"
| "Handles (h # hs) b = Handles hs (Handle h b)"

text \<open>
  \<open>Bot.Open\<close> opens the event source, makes the close channel and starts \<open>handleEvent\<close>
  on the event channel.
\<close>

definition Bot_Open ::
  "(string \<Rightarrow> (string \<times> string) list \<Rightarrow> go_error + conn) \<Rightarrow> 'ev Bot \<times> ws_state
     \<Rightarrow> go_error option \<times> 'ev Bot \<times> ws_state" where
  "Bot_Open dial bs =
     (case bs of (b, st) \<Rightarrow>
        (case Open dial st of
           ((ec, Some err), st') \<Rightarrow> (Some err, b, st')
         | ((ec, None), st') \<Rightarrow>
             (None, b\<lparr> bot_closeChan := Some (next_chan st') \<rparr>,
              st'\<lparr> next_chan := next_chan st' + 1 \<rparr>)))"

definition Bot_Wait :: "(chan \<Rightarrow> bool) \<Rightarrow> 'ev Bot \<Rightarrow> blocking" where
  "Bot_Wait ready b =
     (if bot_closeChan b = None then Returned else receive_from ready (bot_closeChan b))"

text \<open>
  What the dispatch loop does, in order: the log lines and the calls of handlers, and at
  the end the value sent on the close channel.
\<close>

datatype 'ev bot_event =
    Warnf_Unknown string
  | Tracef_NoHandler string
  | Errorf_Decode go_error
  | Invoked EventHandler 'ev RawEvent
  | CloseSignal

text \<open>The body of the loop of \<open>handleEvent\<close> for one event.\<close>

definition handleEvent_one :: "'ev Bot \<Rightarrow> RawEvent \<Rightarrow> 'ev bot_event list" where
  "handleEvent_one b rawEvent =
     (case eventRegistries b (raw_Type rawEvent) of
        None \<Rightarrow> [Warnf_Unknown (raw_Type rawEvent)]
      | Some eventRegistry \<Rightarrow>
         (case eventHandlers b (event_Type eventRegistry) of
            None \<Rightarrow> [Tracef_NoHandler (event_Type eventRegistry)]
          | Some handlers \<Rightarrow>
             (case event_New_Decode eventRegistry (raw_Data rawEvent) of
                Inl err \<Rightarrow> [Errorf_Decode err]
              | Inr event \<Rightarrow> map (\<lambda>handler. Invoked handler event rawEvent) handlers)))"

text \<open>
  \<open>handleEvent\<close> on the events that the channel delivers before it is closed.
\<close>

fun handleEvent_loop :: "'ev Bot \<Rightarrow> RawEvent list \<Rightarrow> 'ev bot_event list" where
  "handleEvent_loop b [] = []"
| "handleEvent_loop b (rawEvent # rest) = handleEvent_one b rawEvent @ handleEvent_loop b rest"

definition handleEvent :: "'ev Bot \<Rightarrow> RawEvent list \<Rightarrow> 'ev bot_event list" where
  "handleEvent b eventChan_events = handleEvent_loop b eventChan_events @ [CloseSignal]"

section \<open>Examples of sources, frames and bots\<close>

text \<open>A dialer that connects, and a source that was opened with it.\<close>

definition dial_ok :: "string \<Rightarrow> (string \<times> string) list \<Rightarrow> go_error + conn" where
  "dial_ok gateway header = Inr 7"

definition opened_state :: ws_state where
  "opened_state = snd (Open dial_ok (initial_state (NewWebsocketEventSource ''ws://localhost:3000/event'' [])))"

text \<open>
  The example of the specification: the event type \<^verbatim>\<open>message_receive\<close>, whose decoded
  form is its text, and handlers for it.
\<close>

definition payload_hi :: bytes where
  "payload_hi = ''{'' @ quoted ''text'' @ '':'' @ quoted ''hi'' @ ''}''"

definition message_event :: "string Event" where
  "message_event =
     \<lparr> event_Type = ''message_receive'',
       event_New_Decode = (\<lambda>bs. if bs = payload_hi then Inr ''hi'' else Inl (Err ''invalid character'')) \<rparr>"

definition handler_H :: EventHandler where
  "handler_H = \<lparr> handler_Type = ''message_receive'', handler_name = ''H'' \<rparr>"

definition handler_G :: EventHandler where
  "handler_G = \<lparr> handler_Type = ''bot_offline'', handler_name = ''G'' \<rparr>"

definition handler_K :: EventHandler where
  "handler_K = \<lparr> handler_Type = ''message_receive'', handler_name = ''K'' \<rparr>"

definition registered_bot :: "string Bot" where
  "registered_bot = SetEventRegistry ''message_receive'' message_event NewBot"

definition raw_hi :: RawEvent where
  "raw_hi = \<lparr> raw_Type = ''message_receive'', raw_SelfID = 1, raw_Time = 1000, raw_Data = payload_hi \<rparr>"

text \<open>
  A prototype registered under an identifier that is not the one it reports: decoding
  into it ignores the fields it does not know.
\<close>

definition offline_event :: "string Event" where
  "offline_event = \<lparr> event_Type = ''bot_offline'', event_New_Decode = (\<lambda>bs. Inr ''offline'') \<rparr>"

definition mismatched_bot :: "string Bot" where
  "mismatched_bot = Handle handler_H (SetEventRegistry ''message_receive'' offline_event NewBot)"

text \<open>
  A text frame whose \<^verbatim>\<open>self_id\<close> is a string. \<^verbatim>\<open>json.Unmarshal\<close> reports the type error
  and fills the other fields; \<open>frames_json\<close> is the decoder on this frame.
\<close>

definition frame_bad_self_id :: bytes where
  "frame_bad_self_id =
     ''{'' @ quoted ''type'' @ '':'' @ quoted ''message_receive'' @ '','' @ quoted ''self_id'' @ '':''
       @ quoted ''1'' @ '','' @ quoted ''time'' @ '':1000,'' @ quoted ''data'' @ '':'' @ payload_hi @ ''}''"

definition raw_partial :: RawEvent where
  "raw_partial = \<lparr> raw_Type = ''message_receive'', raw_SelfID = 0, raw_Time = 1000, raw_Data = payload_hi \<rparr>"

definition frames_json :: frame_codec where
  "frames_json =
     \<lparr> zlib_NewReader = (\<lambda>bs. Some (Err ''zlib: invalid header'')),
       zlib_ReadAll = (\<lambda>bs. ([], None)),
       zlib_Close = (\<lambda>bs. None),
       json_Unmarshal_RawEvent =
         (\<lambda>bs. if bs = frame_bad_self_id
               then (raw_partial, Some (Err ''json: cannot unmarshal string into Go struct field RawEvent.self_id of type int64''))
               else (zero_RawEvent, Some (Err ''invalid character''))) \<rparr>"

definition text_frame :: "bytes \<Rightarrow> frame_step" where
  "text_frame bs = \<lparr> fs_ReadMessage = Inr (TextMessage, bs), fs_concurrent = NoClose, fs_conn_Close = None \<rparr>"

section \<open>Properties of the command client\<close>

subsection \<open>Arithmetic of 64-bit values\<close>

lemma wrap64_id: "- (2 ^ 63) \<le> x \<Longrightarrow> x < 2 ^ 63 \<Longrightarrow> wrap64 x = x"
  by (simp add: wrap64_def)

lemma wrap64_nonneg: "0 \<le> x \<Longrightarrow> x < 2 ^ 63 \<Longrightarrow> wrap64 x = x"
  by (simp add: wrap64_def)

lemma pow2_lt_63: "n < 63 \<Longrightarrow> (2::int) ^ n < 2 ^ 63"
  by (rule power_strict_increasing) simp_all

lemma pow2_lt_63_D: "(2::int) ^ n < 2 ^ 63 \<Longrightarrow> n < 63"
  by (rule power_less_imp_less_exp[of "2::int"]) simp_all

lemma shl1_id: "0 \<le> a \<Longrightarrow> a < 63 \<Longrightarrow> shl1 a = 2 ^ nat a"
proof -
  assume a: "0 \<le> a" "a < 63"
  then have "nat a < 63" by simp
  then have p: "(2::int) ^ nat a < 2 ^ 63" by (rule pow2_lt_63)
  have q: "(0::int) \<le> 2 ^ nat a" by simp
  show ?thesis unfolding shl1_def by (rule wrap64_nonneg[OF q p])
qed

subsection \<open>The number of attempts\<close>

lemma always_fails_step:
  assumes "always_fails c h u rq ss" and "s \<in> set ss"
  shows "\<exists>err slot1. doPost c h (step_exchange s) u rq slot = (Some err, slot1)"
proof -
  have "fst (doPost c h (step_exchange s) u rq slot) \<noteq> None"
    using assms by (simp add: always_fails_def)
  then show ?thesis
    by (cases "doPost c h (step_exchange s) u rq slot") auto
qed

text \<open>
  The loop invariant: started with counter \<open>a\<close> on a gateway that always fails, the loop
  runs the attempts \<open>a, a + 1, ..., maxRetries + 1\<close> and then gives up.
\<close>

lemma Post_loop_all_fail:
  assumes "always_fails c h u rq ss" and "never_cancelled ss"
    and "0 < maxRetryJitter h" and "0 \<le> a" and "a \<le> maxRetries h + 1"
    and "maxRetries h < 2 ^ 63 - 1"
    and "maxRetries h + 2 - a \<le> int (length ss)"
  shows "\<exists>e slot' tr'.
           Post_loop c h u rq slot a ss tr = (Return (Some (Wrap ''max retries exceeded'' e)), slot', tr')
         \<and> filter is_Attempt tr' = filter is_Attempt tr @ map Attempt [a .. maxRetries h + 1]"
  using assms
proof (induction ss arbitrary: a slot tr)
  case Nil
  then show ?case by simp
next
  case (Cons s ss)
  have "s \<in> set (s # ss)" by simp
  from always_fails_step[OF Cons.prems(1) this] obtain err slot1 where dp:
    "doPost c h (step_exchange s) u rq slot = (Some err, slot1)"
    by blast
  show ?case
  proof (cases "a > maxRetries h")
    case True
    with Cons.prems have "a = maxRetries h + 1" by simp
    then have "[a .. maxRetries h + 1] = [a]" by simp
    with True dp show ?thesis by simp
  next
    case False
    have sel: "step_select s = TimerFired"
      using Cons.prems(2) by (simp add: never_cancelled_def)
    have w: "wrap64 (a + 1) = a + 1"
      using False Cons.prems by (intro wrap64_id) auto
    have af: "always_fails c h u rq ss" and nc: "never_cancelled ss"
      using Cons.prems(1,2) by (auto simp: always_fails_def never_cancelled_def)
    have len: "maxRetries h + 2 - (a + 1) \<le> int (length ss)"
      using Cons.prems(7) by simp
    from Cons.IH[OF af nc Cons.prems(3) _ _ Cons.prems(6) len, of slot1
        "tr @ [Attempt a, Slept (retry_delay h a (step_jitter s))]"]
    obtain e slot' tr' where
      ih: "Post_loop c h u rq slot1 (a + 1) ss (tr @ [Attempt a, Slept (retry_delay h a (step_jitter s))])
            = (Return (Some (Wrap ''max retries exceeded'' e)), slot', tr')"
      and tr: "filter is_Attempt tr'
            = filter is_Attempt (tr @ [Attempt a, Slept (retry_delay h a (step_jitter s))])
              @ map Attempt [a + 1 .. maxRetries h + 1]"
      using False Cons.prems(4) by auto
    have "a \<le> maxRetries h + 1" using False by simp
    then have up: "[a .. maxRetries h + 1] = a # [a + 1 .. maxRetries h + 1]"
      by (rule upto_rec1)
    show ?thesis
      using False dp sel w ih tr up Cons.prems(3,4) by simp
  qed
qed

lemma refused_fails: "always_fails unit_codec h u None (replicate n refused)"
  by (simp add: always_fails_def doPost_def refused_def)

lemma refused_never_cancelled: "never_cancelled (replicate n refused)"
  by (simp add: never_cancelled_def refused_def)

text \<open>
  Claim C1. On a gateway whose attempts all fail, with the context never cancelled, a
  positive jitter bound and \<open>0 \<le> maxRetries\<close>, \<open>Post\<close> returns the error
  "max retries exceeded". The counter starts at 0 and grows by one after each failed
  attempt, and the loop gives up at the first failure with \<open>attempt > maxRetries\<close>: the
  attempts carry the counters \<open>0, ..., maxRetries + 1\<close>, so the client makes
  \<open>maxRetries + 2\<close> attempts, one more than the \<open>maxRetries + 1\<close> of the claim.
\<close>

theorem Post_always_failing:
  assumes "always_fails c h u rq steps" and "never_cancelled steps"
    and "0 < maxRetryJitter h" and "0 \<le> maxRetries h" and "maxRetries h < 2 ^ 63 - 1"
    and "maxRetries h + 2 \<le> int (length steps)"
  shows "\<exists>e slot' tr.
           Post c h (Inr u) rq slot steps = (Return (Some (Wrap ''max retries exceeded'' e)), slot', tr)
         \<and> filter is_Attempt tr = map Attempt [0 .. maxRetries h + 1]
         \<and> attempts_made tr = nat (maxRetries h + 2)"
proof -
  from Post_loop_all_fail[OF assms(1,2,3), of 0 slot "[]"] assms(4,5,6)
  obtain e slot' tr where
    r: "Post_loop c h u rq slot 0 steps [] = (Return (Some (Wrap ''max retries exceeded'' e)), slot', tr)"
    and f: "filter is_Attempt tr = map Attempt [0 .. maxRetries h + 1]"
    by auto
  have "length (filter is_Attempt tr) = length [0 .. maxRetries h + 1]"
    by (simp add: f)
  then have "attempts_made tr = nat (maxRetries h + 2)"
    using assms(4) by (simp add: attempts_made_def)
  with r f show ?thesis by (simp add: Post_def)
qed

text \<open>
  The default client, with \<open>maxRetries = 5\<close>, on a gateway that refuses every connection:
  with seven attempts on offer it makes all seven; with six it has not given up yet.
\<close>

lemma Post_default_refused_7:
  "Post unit_codec (NewHttpClient ''http://localhost:3000/api'' [])
       (Inr ''http://localhost:3000/api/get_login_info'') None None (replicate 7 refused)
     = (Return (Some (Wrap ''max retries exceeded'' (Wrap ''request failed'' (Err ''connection refused'')))),
        None,
        [Attempt 0, Slept 100000000, Attempt 1, Slept 200000000, Attempt 2, Slept 400000000,
         Attempt 3, Slept 800000000, Attempt 4, Slept 1600000000, Attempt 5, Slept 3200000000,
         Attempt 6])"
  by (simp add: Post_def NewHttpClient_def doPost_def refused_def unit_codec_def retry_delay_def
        shl1_def wrap64_def Millisecond_def Second_def eval_nat_numeral)

lemma Post_default_refused_6:
  "Post unit_codec (NewHttpClient ''http://localhost:3000/api'' [])
       (Inr ''http://localhost:3000/api/get_login_info'') None None (replicate 6 refused)
     = (Stuck, None,
        [Attempt 0, Slept 100000000, Attempt 1, Slept 200000000, Attempt 2, Slept 400000000,
         Attempt 3, Slept 800000000, Attempt 4, Slept 1600000000, Attempt 5, Slept 3200000000])"
  by (simp add: Post_def NewHttpClient_def doPost_def refused_def unit_codec_def retry_delay_def
        shl1_def wrap64_def Millisecond_def Second_def eval_nat_numeral)

text \<open>
  The run of the default client: seven attempts, six waits of 100 ms doubling to 3.2 s
  (the jitter drawn is 0), then the error.
\<close>

theorem Post_always_failing_default:
  "Post unit_codec (NewHttpClient ''http://localhost:3000/api'' [])
       (Inr ''http://localhost:3000/api/get_login_info'') None None (replicate 7 refused)
     = (Return (Some (Wrap ''max retries exceeded'' (Wrap ''request failed'' (Err ''connection refused'')))),
        None,
        [Attempt 0, Slept 100000000, Attempt 1, Slept 200000000, Attempt 2, Slept 400000000,
         Attempt 3, Slept 800000000, Attempt 4, Slept 1600000000, Attempt 5, Slept 3200000000,
         Attempt 6])
   \<and> attempts_made
        [Attempt 0, Slept 100000000, Attempt 1, Slept 200000000, Attempt 2, Slept 400000000,
         Attempt 3, Slept 800000000, Attempt 4, Slept 1600000000, Attempt 5, Slept 3200000000,
         Attempt 6] = 7
   \<and> fst (Post unit_codec (NewHttpClient ''http://localhost:3000/api'' [])
       (Inr ''http://localhost:3000/api/get_login_info'') None None (replicate 6 refused)) = Stuck"
proof -
  let ?h = "NewHttpClient ''http://localhost:3000/api'' []"
  have 1: "0 < maxRetryJitter ?h" by (simp add: NewHttpClient_def Millisecond_def)
  have 2: "0 \<le> maxRetries ?h" by (simp add: NewHttpClient_def)
  have 3: "maxRetries ?h < 2 ^ 63 - 1" by (simp add: NewHttpClient_def)
  have 4: "maxRetries ?h + 2 \<le> int (length (replicate 7 refused))" by (simp add: NewHttpClient_def)
  have 5: "nat (maxRetries ?h + 2) = 7" by (simp add: NewHttpClient_def)
  from Post_always_failing[OF refused_fails refused_never_cancelled 1 2 3 4,
      of "''http://localhost:3000/api/get_login_info''" None]
  obtain e slot' tr where
    r: "Post unit_codec ?h (Inr ''http://localhost:3000/api/get_login_info'') None None (replicate 7 refused)
          = (Return (Some (Wrap ''max retries exceeded'' e)), slot', tr)"
    and n: "attempts_made tr = 7"
    unfolding 5 by blast
  from r have "tr = [Attempt 0, Slept 100000000, Attempt 1, Slept 200000000, Attempt 2, Slept 400000000,
         Attempt 3, Slept 800000000, Attempt 4, Slept 1600000000, Attempt 5, Slept 3200000000,
         Attempt 6]"
    unfolding Post_default_refused_7 by simp
  with n have a: "attempts_made
        [Attempt 0, Slept 100000000, Attempt 1, Slept 200000000, Attempt 2, Slept 400000000,
         Attempt 3, Slept 800000000, Attempt 4, Slept 1600000000, Attempt 5, Slept 3200000000,
         Attempt 6] = 7" by simp
  show ?thesis
    using Post_default_refused_7 a Post_default_refused_6 by simp
qed

subsection \<open>The delay between attempts\<close>

lemma retry_delay_formula:
  assumes "0 \<le> a" and "0 \<le> baseRetryDelay h" and "0 \<le> j"
    and "baseRetryDelay h * 2 ^ nat a + j < 2 ^ 63"
  shows "retry_delay h a j = min (maxRetryDelay h) (baseRetryDelay h * 2 ^ nat a + j)"
proof (cases "baseRetryDelay h = 0")
  case True
  have "wrap64 j = j" using assms(3,4) True by (intro wrap64_nonneg) simp_all
  then show ?thesis using True by (simp add: retry_delay_def wrap64_nonneg min.commute)
next
  case False
  with assms(2) have b1: "1 \<le> baseRetryDelay h" by simp
  have p0: "(0::int) \<le> 2 ^ nat a" by simp
  have "1 * 2 ^ nat a \<le> baseRetryDelay h * 2 ^ nat a"
    using b1 p0 by (rule mult_right_mono)
  with assms(3,4) have lt: "(2::int) ^ nat a < 2 ^ 63" by linarith
  then have "nat a < 63" by (rule pow2_lt_63_D)
  then have s: "shl1 a = 2 ^ nat a" using assms(1) by (intro shl1_id) auto
  have nn: "0 \<le> baseRetryDelay h * 2 ^ nat a" using assms(2) by simp
  have lt1: "baseRetryDelay h * 2 ^ nat a < 2 ^ 63" using assms(3,4) by linarith
  have w1: "wrap64 (baseRetryDelay h * 2 ^ nat a) = baseRetryDelay h * 2 ^ nat a"
    using nn lt1 by (rule wrap64_nonneg)
  have nn2: "0 \<le> baseRetryDelay h * 2 ^ nat a + j" using nn assms(3) by linarith
  have w2: "wrap64 (baseRetryDelay h * 2 ^ nat a + j) = baseRetryDelay h * 2 ^ nat a + j"
    using nn2 assms(4) by (rule wrap64_nonneg)
  show ?thesis by (simp add: retry_delay_def s w1 w2 min.commute)
qed

text \<open>
  Where \<open>baseRetryDelay * 2 ^ a + j\<close> stays below \<open>2 ^ 63\<close> the wait after a failed
  attempt with counter \<open>a\<close> is \<open>min maxRetryDelay (baseRetryDelay * 2 ^ a + j)\<close>.
\<close>

lemma Post_loop_delay:
  assumes "doPost c h (step_exchange s) u rq slot = (Some err, slot')"
    and "0 \<le> a" and "a \<le> maxRetries h"
    and "0 \<le> baseRetryDelay h"
    and "0 \<le> step_jitter s" and "step_jitter s < maxRetryJitter h"
    and "baseRetryDelay h * 2 ^ nat a + step_jitter s < 2 ^ 63"
  shows "Post_loop c h u rq slot a (s # ss) tr =
           (case step_select s of
              CtxDone \<Rightarrow>
                (Return (Some (Err ''context canceled'')), slot',
                 tr @ [Attempt a,
                       Interrupted (min (maxRetryDelay h) (baseRetryDelay h * 2 ^ nat a + step_jitter s))])
            | TimerFired \<Rightarrow>
                Post_loop c h u rq slot' (wrap64 (a + 1)) ss
                  (tr @ [Attempt a,
                         Slept (min (maxRetryDelay h) (baseRetryDelay h * 2 ^ nat a + step_jitter s))]))"
proof -
  have d: "retry_delay h a (step_jitter s)
             = min (maxRetryDelay h) (baseRetryDelay h * 2 ^ nat a + step_jitter s)"
    using assms(2,4,5,7) by (rule retry_delay_formula)
  have j: "\<not> maxRetryJitter h \<le> 0" using assms(5,6) by simp
  show ?thesis
    using assms(1,2,3) j by (simp add: d split: select_outcome.split)
qed

lemma default_fields:
  "maxRetries (NewHttpClient g t) = 5"
  "baseRetryDelay (NewHttpClient g t) = 100000000"
  "maxRetryDelay (NewHttpClient g t) = 5000000000"
  "maxRetryJitter (NewHttpClient g t) = 100000000"
  by (simp_all add: NewHttpClient_def Millisecond_def Second_def)

text \<open>
  The default client (100 ms, 5 s, 100 ms) retries with the counters 0 to 5, and there
  the delay is the formula; at counter 5 with the largest jitter it is 3.2 s plus
  99999999 ns.
\<close>

lemma retry_delay_default_client:
  assumes "0 \<le> a" and "a \<le> 5" and "0 \<le> j" and "j < maxRetryJitter (NewHttpClient g t)"
  shows "retry_delay (NewHttpClient g t) a j
           = min (maxRetryDelay (NewHttpClient g t)) (baseRetryDelay (NewHttpClient g t) * 2 ^ nat a + j)"
proof -
  have "nat a \<le> 5" using assms(2) by simp
  then have "(2::int) ^ nat a \<le> 2 ^ 5" by (rule power_increasing) simp
  then have "100000000 * (2::int) ^ nat a \<le> 100000000 * 2 ^ 5" by simp
  moreover have "j < 100000000" using assms(4) by (simp add: default_fields)
  ultimately have "baseRetryDelay (NewHttpClient g t) * 2 ^ nat a + j < 2 ^ 63"
    by (simp add: default_fields)
  moreover have "0 \<le> baseRetryDelay (NewHttpClient g t)" by (simp add: default_fields)
  ultimately show ?thesis using assms(1,3) by (intro retry_delay_formula) simp_all
qed

lemma Post_loop_delay_default:
  "Post_loop unit_codec (NewHttpClient ''http://localhost:3000/api'' []) ''u'' None None 5
     [refused\<lparr>step_jitter := 99999999\<rparr>] []
   = (Stuck, None, [Attempt 5, Slept 3299999999])"
proof -
  let ?h = "NewHttpClient ''http://localhost:3000/api'' []"
  let ?s = "refused\<lparr>step_jitter := 99999999\<rparr>"
  have dp: "doPost unit_codec ?h (step_exchange ?s) ''u'' None None
              = (Some (Wrap ''request failed'' (Err ''connection refused'')), None)"
    by (simp add: doPost_def refused_def)
  have sel: "step_select ?s = TimerFired" by (simp add: refused_def)
  have jit: "step_jitter ?s = 99999999" by simp
  from Post_loop_delay[OF dp, of 5 "[]" "[]"]
  show ?thesis
    unfolding sel jit default_fields by simp
qed

text \<open>
  Claim C4. The delay is to be \<open>min maxRetryDelay (baseRetryDelay * 2 ^ a + jitter)\<close>.
  The code computes the product and the sum in 64 bits, and the cap by \<open>min\<close> does not
  catch a product that has wrapped: a client with 40 retries and the default delays,
  on a gateway that refuses every connection, waits a negative time after the attempt
  with counter 37, where the formula gives 5 s.
\<close>

theorem retry_delay_overflow:
  "Slept (- 4702848726509551616)
     \<in> set (snd (snd (Post unit_codec patient_client (Inr ''u'') None None (replicate 38 refused))))
   \<and> (- 4702848726509551616 :: int)
     \<noteq> min (maxRetryDelay patient_client) (baseRetryDelay patient_client * 2 ^ 37 + 0)"
  by (simp add: Post_def patient_client_def NewHttpClientWithOptions_def doPost_def refused_def
       unit_codec_def retry_delay_def shl1_def wrap64_def Millisecond_def Second_def eval_nat_numeral)

subsection \<open>Cancellation during the wait\<close>

lemma failed_attempts_Cons:
  assumes "failed_attempts c h u rq slot (s # ss) = Some slot'"
  obtains err slot1 where "doPost c h (step_exchange s) u rq slot = (Some err, slot1)"
    and "failed_attempts c h u rq slot1 ss = Some slot'"
proof (cases "doPost c h (step_exchange s) u rq slot")
  case (Pair e slot1)
  with assms obtain err where "e = Some err" by (cases e) auto
  with Pair assms that show ?thesis by simp
qed

lemma Post_loop_cancelled:
  assumes "failed_attempts c h u rq slot (pre @ [s]) = Some slot'" and "never_cancelled pre"
    and "step_select s = CtxDone"
    and "0 < maxRetryJitter h" and "0 \<le> a" and "a + int (length pre) \<le> maxRetries h"
    and "maxRetries h < 2 ^ 63"
  shows "Post_loop c h u rq slot a (pre @ s # rest) tr =
           (Return (Some (Err ''context canceled'')), slot',
            tr @ elapsed_waits h a pre
               @ [Attempt (a + int (length pre)),
                  Interrupted (retry_delay h (a + int (length pre)) (step_jitter s))])"
  using assms
proof (induction pre arbitrary: a slot tr)
  case Nil
  from Nil.prems(1) have "failed_attempts c h u rq slot (s # []) = Some slot'" by simp
  then obtain err slot1 where dp: "doPost c h (step_exchange s) u rq slot = (Some err, slot1)"
    and "failed_attempts c h u rq slot1 [] = Some slot'"
    by (rule failed_attempts_Cons)
  then have "slot1 = slot'" by simp
  with dp Nil.prems show ?case by simp
next
  case (Cons p pre)
  from Cons.prems(1) have "failed_attempts c h u rq slot (p # (pre @ [s])) = Some slot'" by simp
  then obtain err slot1 where dp: "doPost c h (step_exchange p) u rq slot = (Some err, slot1)"
    and fa: "failed_attempts c h u rq slot1 (pre @ [s]) = Some slot'"
    by (rule failed_attempts_Cons)
  have le: "a \<le> maxRetries h" using Cons.prems(6) by simp
  have sel: "step_select p = TimerFired"
    using Cons.prems(2) by (simp add: never_cancelled_def)
  have "a + 1 \<le> maxRetries h" using Cons.prems(6) by simp
  then have w: "wrap64 (a + 1) = a + 1"
    using Cons.prems(5,7) by (intro wrap64_nonneg) simp_all
  have nc: "never_cancelled pre"
    using Cons.prems(2) by (simp add: never_cancelled_def)
  have a1: "0 \<le> a + 1" using Cons.prems(5) by simp
  have len: "a + 1 + int (length pre) \<le> maxRetries h" using Cons.prems(6) by simp
  have e: "a + int (length (p # pre)) = a + 1 + int (length pre)" by simp
  note ih = Cons.IH[OF fa nc Cons.prems(3,4) a1 len Cons.prems(7),
      of "tr @ [Attempt a, Slept (retry_delay h a (step_jitter p))]"]
  have "Post_loop c h u rq slot a ((p # pre) @ s # rest) tr
          = Post_loop c h u rq slot1 (a + 1) (pre @ s # rest)
              (tr @ [Attempt a, Slept (retry_delay h a (step_jitter p))])"
    using le dp sel w Cons.prems(4,5) by simp
  also note ih
  finally show ?case unfolding e by simp
qed

lemma attempts_made_elapsed_waits:
  "attempts_made (elapsed_waits h a ss @ [Attempt n, Interrupted d]) = length ss + 1"
  by (induction ss arbitrary: a) (simp_all add: attempts_made_def)

text \<open>
  Claim C6. The attempts up to the wait have failed, each on the slot the earlier ones
  left, the waits before have elapsed, and the wait after the last failed attempt is cut
  by the context (\<open>CtxDone\<close>). Then \<open>Post\<close> returns the error "context canceled". The
  trace is exactly the failed attempts with their elapsed waits, then the last attempt
  and the interrupted wait: that delay is not slept, and none of the steps \<open>rest\<close> that the
  environment still offers is run.
\<close>

theorem Post_cancelled_during_backoff:
  assumes "failed_attempts c h u rq slot (pre @ [s]) = Some slot'" and "never_cancelled pre"
    and "step_select s = CtxDone"
    and "0 < maxRetryJitter h" and "int (length pre) \<le> maxRetries h"
    and "maxRetries h < 2 ^ 63"
  shows "Post c h (Inr u) rq slot (pre @ s # rest) =
           (Return (Some (Err ''context canceled'')), slot',
            elapsed_waits h 0 pre
              @ [Attempt (int (length pre)),
                 Interrupted (retry_delay h (int (length pre)) (step_jitter s))])
         \<and> attempts_made (snd (snd (Post c h (Inr u) rq slot (pre @ s # rest)))) = length pre + 1"
proof -
  have r: "Post c h (Inr u) rq slot (pre @ s # rest) =
           (Return (Some (Err ''context canceled'')), slot',
            elapsed_waits h 0 pre
              @ [Attempt (int (length pre)),
                 Interrupted (retry_delay h (int (length pre)) (step_jitter s))])"
    using Post_loop_cancelled[OF assms(1,2,3,4), of 0 rest "[]"] assms(5,6)
    by (simp add: Post_def)
  show ?thesis unfolding r by (simp add: attempts_made_elapsed_waits)
qed

text \<open>
  The default client with a response slot: the first attempt is refused, the second is
  answered 200 with a body that does not decode, the third is refused and its wait of
  442 ms is cut by the context; four more steps were on offer.
\<close>

theorem Post_cancelled_during_backoff_default:
  "Post unit_codec (NewHttpClient ''http://localhost:3000/api'' []) (Inr ''u'') None (Some ())
       ([refused, undecodable] @ cancelled_wait # replicate 4 refused)
     = (Return (Some (Err ''context canceled'')), Some (),
        [Attempt 0, Slept 100000000, Attempt 1, Slept 200000007, Attempt 2, Interrupted 442000000])
   \<and> attempts_made (snd (snd (Post unit_codec (NewHttpClient ''http://localhost:3000/api'' [])
         (Inr ''u'') None (Some ()) ([refused, undecodable] @ cancelled_wait # replicate 4 refused)))) = 3
   \<and> doPost unit_codec (NewHttpClient ''http://localhost:3000/api'' []) (step_exchange undecodable)
         ''u'' None (Some ())
       = (Some (Wrap ''failed to decode response'' (Err ''unexpected end of JSON input'')), Some ())"
proof -
  let ?h = "NewHttpClient ''http://localhost:3000/api'' []"
  have d: "doPost unit_codec ?h (step_exchange undecodable) ''u'' None (Some ())
       = (Some (Wrap ''failed to decode response'' (Err ''unexpected end of JSON input'')), Some ())"
    by (simp add: doPost_def undecodable_def answers_def unit_codec_def)
  have d0: "doPost unit_codec ?h (step_exchange refused) ''u'' None (Some ())
       = (Some (Wrap ''request failed'' (Err ''connection refused'')), Some ())"
    "doPost unit_codec ?h (step_exchange cancelled_wait) ''u'' None (Some ())
       = (Some (Wrap ''request failed'' (Err ''connection refused'')), Some ())"
    by (simp_all add: doPost_def refused_def cancelled_wait_def)
  have 0: "failed_attempts unit_codec ?h ''u'' None (Some ()) ([refused, undecodable] @ [cancelled_wait])
             = Some (Some ())"
    by (simp add: d d0)
  have 1: "never_cancelled [refused, undecodable]"
    by (simp add: never_cancelled_def refused_def undecodable_def)
  have 2: "step_select cancelled_wait = CtxDone" by (simp add: cancelled_wait_def)
  have 3: "0 < maxRetryJitter ?h" by (simp add: NewHttpClient_def Millisecond_def)
  have 4: "int (length [refused, undecodable]) \<le> maxRetries ?h" by (simp add: NewHttpClient_def)
  have 5: "maxRetries ?h < 2 ^ 63" by (simp add: NewHttpClient_def)
  have w: "elapsed_waits ?h 0 [refused, undecodable]
             @ [Attempt (int (length [refused, undecodable])),
                Interrupted (retry_delay ?h (int (length [refused, undecodable])) (step_jitter cancelled_wait))]
           = [Attempt 0, Slept 100000000, Attempt 1, Slept 200000007, Attempt 2, Interrupted 442000000]"
    by (simp add: retry_delay_def shl1_def wrap64_def NewHttpClient_def Millisecond_def Second_def
          refused_def undecodable_def cancelled_wait_def)
  note t = Post_cancelled_during_backoff[OF 0 1 2 3 4 5, of "replicate 4 refused", unfolded w]
  have n: "length [refused, undecodable] + 1 = 3" by simp
  show ?thesis
    using t[THEN conjunct1] t[THEN conjunct2, unfolded n] d by blast
qed

subsection \<open>One attempt\<close>

lemma doPost_fails_early:
  "(case rq of None \<Rightarrow> Inr [] | Some r \<Rightarrow> json_Marshal c r) = Inl e \<Longrightarrow> fst (doPost c h x u rq slot) \<noteq> None"
  "(case rq of None \<Rightarrow> Inr [] | Some r \<Rightarrow> json_Marshal c r) = Inr jb \<Longrightarrow> newRequest_error x = Some e
     \<Longrightarrow> fst (doPost c h x u rq slot) \<noteq> None"
  "(case rq of None \<Rightarrow> Inr [] | Some r \<Rightarrow> json_Marshal c r) = Inr jb \<Longrightarrow> newRequest_error x = None
     \<Longrightarrow> client_Do x (build_request h u jb) = Inl e \<Longrightarrow> fst (doPost c h x u rq slot) \<noteq> None"
  "(case rq of None \<Rightarrow> Inr [] | Some r \<Rightarrow> json_Marshal c r) = Inr jb \<Longrightarrow> newRequest_error x = None
     \<Longrightarrow> client_Do x (build_request h u jb) = Inr resp \<Longrightarrow> Body resp = Inl e
     \<Longrightarrow> fst (doPost c h x u rq slot) \<noteq> None"
  by (simp_all add: doPost_def)

lemma doPost_after_response:
  assumes "(case rq of None \<Rightarrow> Inr [] | Some r \<Rightarrow> json_Marshal c r) = Inr jb"
    and "newRequest_error x = None"
    and "client_Do x (build_request h u jb) = Inr resp"
    and "Body resp = Inr body"
  shows "doPost c h x u rq slot =
           (if StatusCode resp < 200 \<or> StatusCode resp \<ge> 300
            then (Some (UnexpectedStatus (StatusCode resp) body), slot)
            else
              (case slot of
                 None \<Rightarrow> (None, slot)
               | Some r \<Rightarrow>
                  if StatusCode resp = 204 then (None, slot)
                  else
                    (case json_Unmarshal_HttpResult c body of
                       Inl e \<Rightarrow> (Some (Wrap ''failed to decode response'' e), slot)
                     | Inr result \<Rightarrow>
                        (case json_Unmarshal_response c (Data result) r of
                           (r', None) \<Rightarrow> (None, Some r')
                         | (r', Some e) \<Rightarrow>
                            if e = EOF then (None, Some r')
                            else (Some (Wrap ''failed to decode response'' e), Some r')))))"
  by (simp add: doPost_def assms)

lemma doPost_success_status:
  assumes ok: "fst (doPost c h x u rq slot) = None"
  shows "\<exists>jb resp body.
          (case rq of None \<Rightarrow> Inr [] | Some r \<Rightarrow> json_Marshal c r) = Inr jb
        \<and> newRequest_error x = None
        \<and> client_Do x (build_request h u jb) = Inr resp
        \<and> Body resp = Inr body
        \<and> 200 \<le> StatusCode resp \<and> StatusCode resp < 300"
proof (cases "case rq of None \<Rightarrow> Inr [] | Some r \<Rightarrow> json_Marshal c r")
  case (Inl e)
  with ok doPost_fails_early(1) show ?thesis by blast
next
  case m: (Inr jb)
  show ?thesis
  proof (cases "newRequest_error x")
    case (Some e)
    with ok m doPost_fails_early(2) show ?thesis by blast
  next
    case n: None
    show ?thesis
    proof (cases "client_Do x (build_request h u jb)")
      case (Inl e)
      with ok m n doPost_fails_early(3) show ?thesis by blast
    next
      case d: (Inr resp)
      show ?thesis
      proof (cases "Body resp")
        case (Inl e)
        with ok m n d doPost_fails_early(4) show ?thesis by blast
      next
        case b: (Inr body)
        have "\<not> (StatusCode resp < 200 \<or> StatusCode resp \<ge> 300)"
          using ok unfolding doPost_after_response[OF m n d b] by (auto split: if_splits)
        with m n d b show ?thesis by auto
      qed
    qed
  qed
qed

text \<open>
  Claim C5. An attempt returns \<^verbatim>\<open>nil\<close> only if a response arrived, its body was read and
  its status code lies in \<open>[200, 300)\<close>. For such a response: with status 204 or a
  \<^verbatim>\<open>nil\<close> response slot the attempt returns \<^verbatim>\<open>nil\<close> and leaves the slot as it is, whatever
  the decoders would do; otherwise it decodes the body as an \<open>HttpResult\<close> and decodes the
  \<open>Data\<close> field of that envelope into the slot.
\<close>

theorem doPost_status_and_decoding:
  "(fst (doPost c h x u rq slot) = None \<longrightarrow>
      (\<exists>jb resp body.
          (case rq of None \<Rightarrow> Inr [] | Some r \<Rightarrow> json_Marshal c r) = Inr jb
        \<and> newRequest_error x = None
        \<and> client_Do x (build_request h u jb) = Inr resp
        \<and> Body resp = Inr body
        \<and> 200 \<le> StatusCode resp \<and> StatusCode resp < 300))
   \<and> (\<forall>jb resp body.
          (case rq of None \<Rightarrow> Inr [] | Some r \<Rightarrow> json_Marshal c r) = Inr jb
        \<and> newRequest_error x = None
        \<and> client_Do x (build_request h u jb) = Inr resp
        \<and> Body resp = Inr body
        \<and> 200 \<le> StatusCode resp \<and> StatusCode resp < 300
        \<longrightarrow>
          ((StatusCode resp = 204 \<or> slot = None) \<longrightarrow> doPost c h x u rq slot = (None, slot))
        \<and> (\<forall>r. StatusCode resp \<noteq> 204 \<and> slot = Some r \<longrightarrow>
              doPost c h x u rq slot =
                (case json_Unmarshal_HttpResult c body of
                   Inl e \<Rightarrow> (Some (Wrap ''failed to decode response'' e), slot)
                 | Inr result \<Rightarrow>
                    (case json_Unmarshal_response c (Data result) r of
                       (r', None) \<Rightarrow> (None, Some r')
                     | (r', Some e) \<Rightarrow>
                        (if e = EOF then None else Some (Wrap ''failed to decode response'' e),
                         Some r')))))"
proof (intro conjI allI impI)
  assume "fst (doPost c h x u rq slot) = None"
  then show "\<exists>jb resp body.
          (case rq of None \<Rightarrow> Inr [] | Some r \<Rightarrow> json_Marshal c r) = Inr jb
        \<and> newRequest_error x = None
        \<and> client_Do x (build_request h u jb) = Inr resp
        \<and> Body resp = Inr body
        \<and> 200 \<le> StatusCode resp \<and> StatusCode resp < 300"
    by (rule doPost_success_status)
next
  fix jb resp body
  assume a: "(case rq of None \<Rightarrow> Inr [] | Some r \<Rightarrow> json_Marshal c r) = Inr jb
        \<and> newRequest_error x = None
        \<and> client_Do x (build_request h u jb) = Inr resp
        \<and> Body resp = Inr body
        \<and> 200 \<le> StatusCode resp \<and> StatusCode resp < 300"
    and b: "StatusCode resp = 204 \<or> slot = None"
  from a have m: "(case rq of None \<Rightarrow> Inr [] | Some r \<Rightarrow> json_Marshal c r) = Inr jb"
    and n: "newRequest_error x = None"
    and d: "client_Do x (build_request h u jb) = Inr resp"
    and bd: "Body resp = Inr body"
    and st: "\<not> (StatusCode resp < 200 \<or> StatusCode resp \<ge> 300)"
    by simp_all
  show "doPost c h x u rq slot = (None, slot)"
    unfolding doPost_after_response[OF m n d bd]
    using b st by (cases slot) simp_all
next
  fix jb resp body r
  assume a: "(case rq of None \<Rightarrow> Inr [] | Some r \<Rightarrow> json_Marshal c r) = Inr jb
        \<and> newRequest_error x = None
        \<and> client_Do x (build_request h u jb) = Inr resp
        \<and> Body resp = Inr body
        \<and> 200 \<le> StatusCode resp \<and> StatusCode resp < 300"
    and b: "StatusCode resp \<noteq> 204 \<and> slot = Some r"
  from a have m: "(case rq of None \<Rightarrow> Inr [] | Some r \<Rightarrow> json_Marshal c r) = Inr jb"
    and n: "newRequest_error x = None"
    and d: "client_Do x (build_request h u jb) = Inr resp"
    and bd: "Body resp = Inr body"
    and st: "\<not> (StatusCode resp < 200 \<or> StatusCode resp \<ge> 300)"
    by simp_all
  show "doPost c h x u rq slot =
                (case json_Unmarshal_HttpResult c body of
                   Inl e \<Rightarrow> (Some (Wrap ''failed to decode response'' e), slot)
                 | Inr result \<Rightarrow>
                    (case json_Unmarshal_response c (Data result) r of
                       (r', None) \<Rightarrow> (None, Some r')
                     | (r', Some e) \<Rightarrow>
                        (if e = EOF then None else Some (Wrap ''failed to decode response'' e),
                         Some r')))"
    unfolding doPost_after_response[OF m n d bd]
    using b st by (simp split: sum.split prod.split option.split)
qed

lemma login_marshal:
  "(case Some () of None \<Rightarrow> Inr [] | Some r \<Rightarrow> json_Marshal login_codec r) = Inr ''{}''"
  by (simp add: login_codec_def)

lemma login_decode:
  "json_Unmarshal_HttpResult login_codec login_body
     = Inr \<lparr> Status = ''ok'', Code = 0, Data = login_data \<rparr>"
  "json_Unmarshal_response login_codec login_data 0 = (123, None)"
  by (simp_all add: login_codec_def)

lemma answers_simps:
  "newRequest_error (answers k b) = None"
  "client_Do (answers k b) rq = Inr \<lparr> StatusCode = k, Body = Inr b \<rparr>"
  by (simp_all add: answers_def)

text \<open>
  The example of the specification: status 200 with the envelope around \<open>id = 123\<close>
  fills the slot; status 204 leaves it; status 404 fails.
\<close>

theorem doPost_get_login_info:
  "doPost login_codec (NewHttpClient ''http://localhost:3000/api'' ''secret'') (answers 200 login_body)
     ''http://localhost:3000/api/get_login_info'' (Some ()) (Some 0) = (None, Some 123)
   \<and> doPost login_codec (NewHttpClient ''http://localhost:3000/api'' ''secret'') (answers 204 [])
     ''http://localhost:3000/api/get_login_info'' (Some ()) (Some 0) = (None, Some 0)
   \<and> fst (doPost login_codec (NewHttpClient ''http://localhost:3000/api'' ''secret'') (answers 404 login_body)
     ''http://localhost:3000/api/get_login_info'' (Some ()) (Some 0)) \<noteq> None"
proof -
  let ?h = "NewHttpClient ''http://localhost:3000/api'' ''secret''"
  let ?u = "''http://localhost:3000/api/get_login_info''"
  have 1: "doPost login_codec ?h (answers 200 login_body) ?u (Some ()) (Some 0) = (None, Some 123)"
    using doPost_status_and_decoding[of login_codec ?h "answers 200 login_body" ?u "Some ()" "Some 0"]
    unfolding login_marshal answers_simps by (simp add: login_decode)
  have 2: "doPost login_codec ?h (answers 204 []) ?u (Some ()) (Some 0) = (None, Some 0)"
    using doPost_status_and_decoding[of login_codec ?h "answers 204 []" ?u "Some ()" "Some 0"]
    unfolding login_marshal answers_simps by simp
  have 3: "fst (doPost login_codec ?h (answers 404 login_body) ?u (Some ()) (Some 0)) \<noteq> None"
    using doPost_status_and_decoding[of login_codec ?h "answers 404 login_body" ?u "Some ()" "Some 0"]
    unfolding login_marshal answers_simps by simp
  from 1 2 3 show ?thesis by simp
qed

section \<open>Properties of the message builder\<close>

lemma Appends_after_error: "error sb \<noteq> None \<Longrightarrow> Appends calls sb = sb"
proof (induction calls arbitrary: sb)
  case Nil
  show ?case by simp
next
  case (Cons c calls)
  obtain segment err where c: "c = (segment, err)" by (cases c)
  have "Append segment err sb = sb" using Cons.prems by (simp add: Append_def)
  with Cons c show ?case by simp
qed

lemma Appends_no_error:
  "error sb = None \<Longrightarrow> \<forall>c \<in> set calls. snd c = None
     \<Longrightarrow> Appends calls sb = sb\<lparr>segments := segments sb @ map fst calls\<rparr>"
proof (induction calls arbitrary: sb)
  case Nil
  show ?case by simp
next
  case (Cons c calls)
  obtain segment where c: "c = (segment, None)" using Cons.prems(2) by (cases c) auto
  have a: "Append segment None sb = sb\<lparr>segments := segments sb @ [segment]\<rparr>"
    using Cons.prems(1) by (simp add: Append_def)
  have "Appends calls (sb\<lparr>segments := segments sb @ [segment]\<rparr>)
          = (sb\<lparr>segments := segments sb @ [segment]\<rparr>)
              \<lparr>segments := segments (sb\<lparr>segments := segments sb @ [segment]\<rparr>) @ map fst calls\<rparr>"
    using Cons.prems by (intro Cons.IH) simp_all
  then show ?case using c a by simp
qed

lemma Appends_append: "Appends (xs @ ys) sb = Appends ys (Appends xs sb)"
  by (induction xs arbitrary: sb) auto

text \<open>
  Claim C10. The builder keeps the first error. On a builder that holds an error, every
  chain of further calls leaves the builder as it is, and \<open>Build\<close> returns \<^verbatim>\<open>nil\<close> and
  that error. On a builder without error, calls without error followed by a call with
  error \<open>e\<close> and any calls after it leave the segments of the calls before the failing
  one and the error \<open>e\<close>. If no call has an error, \<open>Build\<close> on a new builder returns the
  segments in call order and no error.
\<close>

theorem SegmentBuilder_first_error_wins:
  "(error sb \<noteq> None \<longrightarrow>
      Appends calls sb = sb \<and> Build (Appends calls sb) = (None, error sb))
   \<and> (error sb = None \<and> (\<forall>c \<in> set pre. snd c = None) \<longrightarrow>
        Appends (pre @ (segment, Some e) # post) sb
          = sb\<lparr>segments := segments sb @ map fst pre, error := Some e\<rparr>
      \<and> Build (Appends (pre @ (segment, Some e) # post) sb) = (None, Some e))
   \<and> ((\<forall>c \<in> set calls. snd c = None) \<longrightarrow>
        Build (Appends calls NewSegmentBuilder) = (Some (map fst calls), None))"
proof (intro conjI impI)
  assume e: "error sb \<noteq> None"
  then show "Appends calls sb = sb" by (rule Appends_after_error)
  then show "Build (Appends calls sb) = (None, error sb)" using e by (simp add: Build_def)
next
  assume a: "error sb = None \<and> (\<forall>c \<in> set pre. snd c = None)"
  then have p: "Appends pre sb = sb\<lparr>segments := segments sb @ map fst pre\<rparr>"
    by (intro Appends_no_error) simp_all
  have f: "Append segment (Some e) (sb\<lparr>segments := segments sb @ map fst pre\<rparr>)
             = sb\<lparr>segments := segments sb @ map fst pre, error := Some e\<rparr>"
    using a by (simp add: Append_def)
  have "Appends (pre @ (segment, Some e) # post) sb
          = Appends post (sb\<lparr>segments := segments sb @ map fst pre, error := Some e\<rparr>)"
    by (simp add: Appends_append p f)
  also have "\<dots> = sb\<lparr>segments := segments sb @ map fst pre, error := Some e\<rparr>"
    by (rule Appends_after_error) simp
  finally show r: "Appends (pre @ (segment, Some e) # post) sb
          = sb\<lparr>segments := segments sb @ map fst pre, error := Some e\<rparr>" .
  show "Build (Appends (pre @ (segment, Some e) # post) sb) = (None, Some e)"
    unfolding r by (simp add: Build_def)
next
  assume "\<forall>c \<in> set calls. snd c = None"
  then have "Appends calls NewSegmentBuilder
               = NewSegmentBuilder\<lparr>segments := segments NewSegmentBuilder @ map fst calls\<rparr>"
    by (intro Appends_no_error) (simp_all add: NewSegmentBuilder_def)
  then show "Build (Appends calls NewSegmentBuilder) = (Some (map fst calls), None)"
    by (simp add: Build_def NewSegmentBuilder_def)
qed

text \<open>
  Four calls of which the second and the fourth fail; two calls without failure; a call
  on a builder that already holds an error.
\<close>

theorem SegmentBuilder_example:
  "Build (Appends [(text_hi, None), (mention_all, Some (Err ''bad segment'')),
                   (text_hi, None), (mention_all, Some (Err ''later''))] NewSegmentBuilder)
     = (None, Some (Err ''bad segment''))
   \<and> segments (Appends [(text_hi, None), (mention_all, Some (Err ''bad segment'')),
                   (text_hi, None), (mention_all, Some (Err ''later''))] NewSegmentBuilder) = [text_hi]
   \<and> Build (Appends [(text_hi, None), (mention_all, None)] NewSegmentBuilder)
     = (Some [text_hi, mention_all], None)
   \<and> Appends [(text_hi, None)] (NewSegmentBuilder\<lparr>error := Some EOF\<rparr>)
     = NewSegmentBuilder\<lparr>error := Some EOF\<rparr>"
proof -
  let ?bad = "Err ''bad segment''"
  let ?post = "[(text_hi, None), (mention_all, Some (Err ''later''))]"
  have n: "error NewSegmentBuilder = None" "segments NewSegmentBuilder = []"
    by (simp_all add: NewSegmentBuilder_def)
  have p1: "error (NewSegmentBuilder\<lparr>error := Some EOF\<rparr>) \<noteq> None" by simp
  have p2: "error NewSegmentBuilder = None \<and> (\<forall>c \<in> set [(text_hi, None)]. snd c = None)"
    by (simp add: n)
  have p3: "\<forall>c \<in> set [(text_hi, None), (mention_all, None)]. snd c = None" by simp
  note r1 = SegmentBuilder_first_error_wins[of "NewSegmentBuilder\<lparr>error := Some EOF\<rparr>"
      "[(text_hi, None)]" "[]" text_hi EOF "[]", THEN conjunct1, THEN mp, OF p1]
  note r2 = SegmentBuilder_first_error_wins[of NewSegmentBuilder "[]" "[(text_hi, None)]" mention_all
      ?bad ?post, THEN conjunct2, THEN conjunct1, THEN mp, OF p2]
  note r3 = SegmentBuilder_first_error_wins[of NewSegmentBuilder "[(text_hi, None), (mention_all, None)]"
      "[]" text_hi EOF "[]", THEN conjunct2, THEN conjunct2, THEN mp, OF p3]
  have 1: "Appends [(text_hi, None)] (NewSegmentBuilder\<lparr>error := Some EOF\<rparr>)
             = NewSegmentBuilder\<lparr>error := Some EOF\<rparr>"
    by (rule r1[THEN conjunct1])
  have 2: "Build (Appends ([(text_hi, None)] @ (mention_all, Some ?bad) # ?post) NewSegmentBuilder)
             = (None, Some ?bad)"
    by (rule r2[THEN conjunct2])
  have 3: "segments (Appends ([(text_hi, None)] @ (mention_all, Some ?bad) # ?post) NewSegmentBuilder)
             = [text_hi]"
    unfolding r2[THEN conjunct1] by (simp add: n)
  have 4: "Build (Appends [(text_hi, None), (mention_all, None)] NewSegmentBuilder)
             = (Some [text_hi, mention_all], None)"
    using r3 by simp
  have l: "[(text_hi, None)] @ (mention_all, Some ?bad) # ?post
             = [(text_hi, None), (mention_all, Some ?bad), (text_hi, None),
                (mention_all, Some (Err ''later''))]"
    by simp
  show ?thesis
    using 1 2 3 4 unfolding l by (intro conjI)
qed

section \<open>Properties of the event stream\<close>

text \<open>
  Claim C7. On a source whose connection handle is set, \<open>Open\<close> returns the error
  "already connected" and no channel, and the state is the one before the call: the
  handle, the event channel and the close channel are the same, no channel was closed or
  made, and no second \<open>receive\<close> was started.
\<close>

theorem Open_already_connected:
  "wsConn (source st) \<noteq> None \<Longrightarrow> Open dial st = ((None, Some ErrAlreadyConnected), st)"
  by (simp add: Open_def)

lemma opened_state_eq:
  "opened_state =
     \<lparr> source = \<lparr> wsGateway = ''ws://localhost:3000/event'', ws_accessToken = [],
                  wsConn = Some 7, eventChan = Some 0, closeChan = Some 1 \<rparr>,
       closed_chans = [], next_chan = 2, receivers = [(7, 0, 1)] \<rparr>"
  by (simp add: opened_state_def Open_def dial_ok_def initial_state_def NewWebsocketEventSource_def
        dial_header_def)

text \<open>
  A source opened once holds connection 7, event channel 0 and close channel 1; a second
  \<open>Open\<close> leaves them.
\<close>

theorem Open_twice:
  "Open dial_ok opened_state = ((None, Some (Err ''already connected'')), opened_state)
   \<and> wsConn (source opened_state) = Some 7
   \<and> eventChan (source opened_state) = Some 0
   \<and> closeChan (source opened_state) = Some 1
   \<and> closed_chans opened_state = []"
proof -
  have c: "wsConn (source opened_state) \<noteq> None" by (simp add: opened_state_eq)
  from Open_already_connected[OF c, of dial_ok]
  show ?thesis by (simp add: ErrAlreadyConnected_def opened_state_eq)
qed

text \<open>
  Claim C8. On a bot that was never opened \<open>Wait\<close> returns: \<open>Bot.Wait\<close> tests its close
  channel for \<^verbatim>\<open>nil\<close>. On an event source that was never opened \<open>Wait\<close> receives from the
  \<^verbatim>\<open>nil\<close> close channel and blocks forever: the claim holds for \<open>Bot.Wait\<close> and fails for
  \<open>WebsocketEventSource.Wait\<close>.
\<close>

theorem Wait_never_opened:
  "Bot_Wait ready NewBot = Returned
   \<and> ws_Wait (initial_state (NewWebsocketEventSource gateway token)) = BlockedForever"
  by (simp add: Bot_Wait_def NewBot_def ws_Wait_def receive_from_def initial_state_def
        NewWebsocketEventSource_def)

text \<open>
  Claim C2. For a text frame that fails to decode, \<open>receive\<close> logs the failure and goes
  on to the next frame, as the claim says. But it does not drop the frame: the value
  that the failed decode left in \<open>rawEvent\<close> is sent on the event channel first.
\<close>

theorem receive_undecodable_frame_is_sent:
  assumes "fs_ReadMessage s = Inr (TextMessage, message)"
    and "json_Unmarshal_RawEvent cd message = (rawEvent, Some err)"
    and "fs_concurrent s = NoClose"
    and "ec \<notin> set (closed_chans st)" and "cc \<notin> set (closed_chans st)"
  shows "receive cd c ec cc (s # ss) st tr =
           receive cd c ec cc ss st
             (tr @ [Errorf ''Failed to decode message'' err, Debugf_Received rawEvent, Sent rawEvent])"
  using assms by (simp add: TextMessage_def BinaryMessage_def)

section \<open>Properties of the dispatcher\<close>

text \<open>
  Claim C9. Two calls of \<open>SetEventRegistry\<close> for one identifier: afterwards the registry
  maps the identifier to the second prototype, and the bot is the one that the second
  call alone would give. \<open>SetEventRegistry\<close> has no error result, so
  \<open>ErrEventRegistryAlreadyExists\<close> is never returned; the handlers and the close channel
  are untouched.
\<close>

theorem SetEventRegistry_overwrites:
  "eventRegistries (SetEventRegistry t e2 (SetEventRegistry t e1 b)) t = Some e2
   \<and> SetEventRegistry t e2 (SetEventRegistry t e1 b) = SetEventRegistry t e2 b
   \<and> eventHandlers (SetEventRegistry t e2 (SetEventRegistry t e1 b)) = eventHandlers b
   \<and> bot_closeChan (SetEventRegistry t e2 (SetEventRegistry t e1 b)) = bot_closeChan b"
  by (simp add: SetEventRegistry_def)

lemma eventRegistries_Handles: "eventRegistries (Handles hs b) = eventRegistries b"
  by (induction hs arbitrary: b) (simp_all add: Handle_def)

lemma eventHandlers_Handles:
  "eventHandlers (Handles hs b) t =
     (if filter (\<lambda>h. handler_Type h = t) hs = [] then eventHandlers b t
      else Some ((case eventHandlers b t of None \<Rightarrow> [] | Some xs \<Rightarrow> xs)
                   @ filter (\<lambda>h. handler_Type h = t) hs))"
proof (induction hs arbitrary: b)
  case Nil
  show ?case by simp
next
  case (Cons h hs)
  show ?case
  proof (cases "handler_Type h = t")
    case True
    then have "eventHandlers (Handle h b) t
                 = Some ((case eventHandlers b t of None \<Rightarrow> [] | Some xs \<Rightarrow> xs) @ [h])"
      by (simp add: Handle_def)
    with True show ?thesis by (simp add: Cons.IH)
  next
    case False
    then have "eventHandlers (Handle h b) t = eventHandlers b t"
      by (simp add: Handle_def)
    with False show ?thesis by (simp add: Cons.IH)
  qed
qed

lemma handleEvent_loop_append:
  "handleEvent_loop b (xs @ ys) = handleEvent_loop b xs @ handleEvent_loop b ys"
  by (induction xs) simp_all

lemma handleEvent_one_decoded:
  assumes "eventRegistries b (raw_Type rawEvent) = Some reg"
    and "eventHandlers b (event_Type reg) = Some handlers"
    and "event_New_Decode reg (raw_Data rawEvent) = Inr event"
  shows "handleEvent_one b rawEvent = map (\<lambda>h. Invoked h event rawEvent) handlers"
  using assms by (simp add: handleEvent_one_def)

lemma handleEvent_one_decode_failure:
  assumes "eventRegistries b (raw_Type rawEvent) = Some reg"
    and "eventHandlers b (event_Type reg) = Some handlers"
    and "event_New_Decode reg (raw_Data rawEvent) = Inl err"
  shows "handleEvent_one b rawEvent = [Errorf_Decode err]"
  using assms by (simp add: handleEvent_one_def)

lemma handleEvent_dispatch:
  assumes "eventRegistries b0 (raw_Type rawEvent) = Some reg"
    and "eventHandlers b0 (event_Type reg) = None"
    and "filter (\<lambda>h. handler_Type h = event_Type reg) hs \<noteq> []"
    and "event_New_Decode reg (raw_Data rawEvent) = Inr event"
  shows "handleEvent (Handles hs b0) (before @ rawEvent # after) =
           handleEvent_loop (Handles hs b0) before
           @ map (\<lambda>h. Invoked h event rawEvent) (filter (\<lambda>h. handler_Type h = event_Type reg) hs)
           @ handleEvent (Handles hs b0) after"
proof -
  have r: "eventRegistries (Handles hs b0) (raw_Type rawEvent) = Some reg"
    using assms(1) by (simp add: eventRegistries_Handles)
  have h: "eventHandlers (Handles hs b0) (event_Type reg)
             = Some (filter (\<lambda>h. handler_Type h = event_Type reg) hs)"
    using assms(2,3) by (simp add: eventHandlers_Handles)
  have "handleEvent_one (Handles hs b0) rawEvent
          = map (\<lambda>h. Invoked h event rawEvent) (filter (\<lambda>h. handler_Type h = event_Type reg) hs)"
    using r h assms(4) by (rule handleEvent_one_decoded)
  then show ?thesis
    by (simp add: handleEvent_def handleEvent_loop_append)
qed

text \<open>
  Claim C3, amended. The registry of the bot \<open>b0\<close> holds, under the type of the event, a
  prototype that reports this same type; the handlers \<open>hs\<close> are registered with \<open>Handle\<close>
  in this order on \<open>b0\<close>, which has none for the type, and at least one of them is for the
  type; the event is well formed, that is, its payload decodes. Then the loop, between
  what it does for the events before and after, calls exactly the handlers registered
  for that type, each once and in registration order, with the decoded event and the raw
  event.
\<close>

theorem handleEvent_invokes_in_registration_order:
  assumes "eventRegistries b0 (raw_Type rawEvent) = Some reg"
    and "event_Type reg = raw_Type rawEvent"
    and "eventHandlers b0 (raw_Type rawEvent) = None"
    and "filter (\<lambda>h. handler_Type h = raw_Type rawEvent) hs \<noteq> []"
    and "event_New_Decode reg (raw_Data rawEvent) = Inr event"
  shows "handleEvent (Handles hs b0) (before @ rawEvent # after) =
           handleEvent_loop (Handles hs b0) before
           @ map (\<lambda>h. Invoked h event rawEvent) (filter (\<lambda>h. handler_Type h = raw_Type rawEvent) hs)
           @ handleEvent (Handles hs b0) after"
  using handleEvent_dispatch[of b0 rawEvent reg hs event before after] assms by simp

lemma registered_bot_simps:
  "eventRegistries registered_bot ''message_receive'' = Some message_event"
  "eventHandlers registered_bot t = None"
  by (simp_all add: registered_bot_def SetEventRegistry_def NewBot_def)

lemma message_event_simps:
  "event_Type message_event = ''message_receive''"
  "event_New_Decode message_event payload_hi = Inr ''hi''"
  "event_New_Decode message_event ''{'' = Inl (Err ''invalid character'')"
  by (simp_all add: message_event_def payload_hi_def quoted_def)

text \<open>
  The example of the specification, with a second handler \<open>K\<close> for the type and a
  handler \<open>G\<close> for another type registered in between.
\<close>

theorem handleEvent_example:
  "handleEvent (Handles [handler_H, handler_G, handler_K] registered_bot) [raw_hi]
     = [Invoked handler_H ''hi'' raw_hi, Invoked handler_K ''hi'' raw_hi, CloseSignal]"
proof -
  have t: "raw_Type raw_hi = ''message_receive''" by (simp add: raw_hi_def)
  have 1: "eventRegistries registered_bot (raw_Type raw_hi) = Some message_event"
    by (simp add: t registered_bot_simps)
  have 2: "event_Type message_event = raw_Type raw_hi"
    by (simp add: t message_event_simps)
  have 3: "eventHandlers registered_bot (raw_Type raw_hi) = None"
    by (rule registered_bot_simps)
  have f: "filter (\<lambda>h. handler_Type h = raw_Type raw_hi) [handler_H, handler_G, handler_K]
             = [handler_H, handler_K]"
    by (simp add: t handler_H_def handler_G_def handler_K_def)
  have 4: "filter (\<lambda>h. handler_Type h = raw_Type raw_hi) [handler_H, handler_G, handler_K] \<noteq> []"
    unfolding f by simp
  have 5: "event_New_Decode message_event (raw_Data raw_hi) = Inr ''hi''"
    by (simp add: raw_hi_def message_event_simps)
  from handleEvent_invokes_in_registration_order[OF 1 2 3 4 5, of "[]" "[]"]
  show ?thesis unfolding f by (simp add: handleEvent_def)
qed

text \<open>
  The claim as stated fails when the prototype reports another type than the one it is
  registered under: the handlers are looked up under the type that the prototype
  reports. Here the type of the event is in the registry and has the handler \<open>H\<close>, the
  payload decodes, and \<open>H\<close> is not called.
\<close>

theorem handleEvent_type_mismatch:
  "eventRegistries mismatched_bot (raw_Type raw_hi) = Some offline_event
   \<and> eventHandlers mismatched_bot (raw_Type raw_hi) = Some [handler_H]
   \<and> event_New_Decode offline_event (raw_Data raw_hi) = Inr ''offline''
   \<and> handleEvent mismatched_bot [raw_hi] = [Tracef_NoHandler ''bot_offline'', CloseSignal]"
  by (simp add: handleEvent_def handleEvent_one_def mismatched_bot_def Handle_def SetEventRegistry_def
        NewBot_def raw_hi_def offline_event_def handler_H_def)

text \<open>
  A text frame whose \<^verbatim>\<open>self_id\<close> is a string: the decode fails, the partly filled event is
  sent, and the dispatcher hands it to the handler \<open>H\<close>.
\<close>

theorem receive_undecodable_frame_example:
  "receive frames_json 7 0 1 [text_frame frame_bad_self_id] opened_state []
     = (AwaitingFrame, opened_state,
        [Errorf ''Failed to decode message''
           (Err ''json: cannot unmarshal string into Go struct field RawEvent.self_id of type int64''),
         Debugf_Received raw_partial, Sent raw_partial])
   \<and> handleEvent (Handle handler_H registered_bot) [raw_partial]
     = [Invoked handler_H ''hi'' raw_partial, CloseSignal]"
proof -
  have 1: "fs_ReadMessage (text_frame frame_bad_self_id) = Inr (TextMessage, frame_bad_self_id)"
    and 3: "fs_concurrent (text_frame frame_bad_self_id) = NoClose"
    by (simp_all add: text_frame_def)
  have 2: "json_Unmarshal_RawEvent frames_json frame_bad_self_id
             = (raw_partial, Some (Err ''json: cannot unmarshal string into Go struct field RawEvent.self_id of type int64''))"
    by (simp add: frames_json_def)
  have 4: "0 \<notin> set (closed_chans opened_state)" and 5: "1 \<notin> set (closed_chans opened_state)"
    by (simp_all add: opened_state_eq)
  have a: "receive frames_json 7 0 1 [text_frame frame_bad_self_id] opened_state []
     = (AwaitingFrame, opened_state,
        [Errorf ''Failed to decode message''
           (Err ''json: cannot unmarshal string into Go struct field RawEvent.self_id of type int64''),
         Debugf_Received raw_partial, Sent raw_partial])"
    using receive_undecodable_frame_is_sent[OF 1 2 3 4 5, of 7 "[]" "[]"] by simp
  have b: "handleEvent (Handle handler_H registered_bot) [raw_partial]
     = [Invoked handler_H ''hi'' raw_partial, CloseSignal]"
    by (simp add: handleEvent_def handleEvent_one_def Handle_def registered_bot_simps raw_partial_def
        message_event_simps handler_H_def)
  from a b show ?thesis by simp
qed

end
